theory Spec2Isabelle
  imports Complex_Main
begin

section \<open>Alignment VAE: data model\<close>

text \<open>
  The model follows \<^verbatim>\<open>alignments/models/vae.py\<close>. Tensors of floats are nested lists
  of reals, boolean masks are nested lists of booleans, token indices and lengths are naturals.
  A tensor of shape [B, T_y, T_x] is a list of B matrices with T_y rows of T_x cells.
  Exceptions are values of the type \<open>error\<close>, returned on the left of a sum.

  The arithmetic is the exact one of the reals, with two exceptions where the floating
  point of the tensors is written out: the rounding of the elementwise operations that
  compute the total loss and the ELBO in \<open>loss\<close> and the smoothed baselines in
  \<open>update_baselines\<close> (the function \<open>fl\<close> of the library operations), and the NaN of a
  standard deviation of fewer than two values, which \<open>std_reward\<close> and every reward
  normalized by it can hold (the type \<open>fnum\<close>). Infinities, and the rounding inside the
  library's reductions and functions, are not modelled.
\<close>

type_synonym vec = "real list"
type_synonym mat = "real list list"
type_synonym tensor3 = "real list list list"
type_synonym fnum = "real option"

datatype error =
    NotImplementedError
  | Exception
  | KeyError
  | IndexError
  | AttributeError
  | UnboundLocalError
  | TypeError

text \<open>
  The distribution objects. A value records the class that was instantiated and the
  arguments of the constructor call; the classes themselves live in
  \<^verbatim>\<open>alignments.dist\<close>, \<^verbatim>\<open>probabll.distributions\<close> and torch, and what they
  compute (sampling, densities, divergences, the validation of their arguments) is not
  part of the two source files.
\<close>

datatype bernoulli_args = Probs tensor3 | Logits tensor3

datatype distribution =
    BernoulliREINFORCE bernoulli_args
  | BernoulliStraightThrough bernoulli_args
  | BinaryConcrete vec tensor3
  | Kumaraswamy tensor3 tensor3
  | Stretched distribution real real
  | Rectified01 distribution

text \<open>Python's \<^verbatim>\<open>needle in haystack\<close> on strings: a contiguous occurrence.\<close>

fun starts_with :: "string \<Rightarrow> string \<Rightarrow> bool" where
  "starts_with [] ys = True"
| "starts_with (x # xs) [] = False"
| "starts_with (x # xs) (y # ys) = (x = y \<and> starts_with xs ys)"

fun str_in :: "string \<Rightarrow> string \<Rightarrow> bool" where
  "str_in needle [] = starts_with needle []"
| "str_in needle (c # cs) = (starts_with needle (c # cs) \<or> str_in needle cs)"

section \<open>InferenceNetwork.forward\<close>

text \<open>
  The embeddings, the two encoders, the key and query layers and the batched product
  produce the score tensor \<open>logits\<close> of shape [B, T_y, T_x]; the encoder class is not in
  the source files, so the scores are an argument. What is modelled is the dispatch on
  \<open>dist\<close> (the field \<open>dist_name\<close> here) that wraps the scores as a posterior or raises.
\<close>

definition clamp :: "real \<Rightarrow> real \<Rightarrow> real \<Rightarrow> real" where
  "clamp lo hi v = min (max v lo) hi"

definition inf_forward :: "string \<Rightarrow> tensor3 \<Rightarrow> error + distribution" where
  "inf_forward dist_name logits =
     (if dist_name \<in> set [''bernoulli-RF'', ''bernoulli-ST'', ''concrete''] then
        (if dist_name = ''bernoulli-RF'' then Inr (BernoulliREINFORCE (Logits logits))
         else if dist_name = ''bernoulli-ST'' then Inr (BernoulliStraightThrough (Logits logits))
         else Inr (BinaryConcrete [1.0] (map (map (map (clamp (-5) 5))) logits)))
      else if dist_name \<in> set [''kuma'', ''hardkuma''] then Inl NotImplementedError
      else Inl Exception)"

section \<open>AlignmentVAE: the model object\<close>

text \<open>
  The attributes of the REINFORCE baselines exist only when the model was built with
  \<open>dist = "bernoulli-RF"\<close>; reading them on another model is an AttributeError. The
  prior table exists only for \<open>dist = "hardkuma"\<close>.
\<close>

record rf_state =
  avg_reward :: real
  std_reward :: fnum
  alpha :: real
  use_mean_cv :: bool
  use_std_cv :: bool
  use_self_critic_cv :: bool

record model =
  dist_name :: string
  prior_params :: "real \<times> real"
  pad_idx :: nat
  pooling :: string
  emb_size :: nat
  src_embedder :: "nat \<Rightarrow> vec"
  categorical_layer :: "vec \<Rightarrow> vec"
  rf :: "rf_state option"
  hardkuma_prior_table :: "(nat \<rightharpoonup> real \<times> real) option"

section \<open>The HardKuma prior table\<close>

text \<open>
  \<^verbatim>\<open>torch.linspace(start, end, steps)\<close>: \<open>steps\<close> equidistant values from \<open>start\<close> to
  \<open>end\<close>, both included; a single step gives \<open>start\<close>.
\<close>

definition linspace :: "real \<Rightarrow> real \<Rightarrow> nat \<Rightarrow> real list" where
  "linspace start stop steps =
     map (\<lambda>i. start + real i * (stop - start) / real (steps - 1)) [0..<steps]"

text \<open>
  The list of \<open>(a, 1.0, CDF(k0))\<close>, sorted by \<open>a\<close> (Python's \<^verbatim>\<open>sorted\<close> is stable, as
  \<open>sort_key\<close> is). The cumulative distribution function of the Kumaraswamy class is the
  argument \<open>cdf a b x\<close>.
\<close>

definition kuma_priors :: "real \<Rightarrow> (real \<Rightarrow> real \<Rightarrow> real \<Rightarrow> real) \<Rightarrow> real \<Rightarrow> real \<Rightarrow> nat
    \<Rightarrow> (real \<times> real \<times> real) list" where
  "kuma_priors epsilon cdf l r N =
     (let b = 1.0;
          k0 = - l / (r - l)
      in sort_key fst (map (\<lambda>a. (a, b, cdf a b k0)) (linspace epsilon 1 N)))"

definition target_p0 :: "real \<Rightarrow> nat \<Rightarrow> real" where
  "target_p0 epsilon len = 1.0 - min ((1.0 + epsilon) / (real len + 1.0)) (1.0 - epsilon)"

text \<open>
  The \<^verbatim>\<open>while cdf0 > p0 and idx != len(kuma_priors)\<close> scan. The state is the last
  triple assigned to \<open>a, b, cdf0\<close>; \<open>None\<close> is the state before the first assignment,
  where \<open>cdf0\<close> is \<^verbatim>\<open>float("inf")\<close> and so greater than every \<open>p0\<close>.
\<close>

fun scan :: "real \<Rightarrow> (real \<times> real \<times> real) list \<Rightarrow> (real \<times> real \<times> real) option
    \<Rightarrow> (real \<times> real \<times> real) option" where
  "scan p0 [] st = st"
| "scan p0 (e # es) st =
     (if (case st of None \<Rightarrow> True | Some (a, b, cdf0) \<Rightarrow> cdf0 > p0)
      then scan p0 es (Some e) else st)"

text \<open>
  The entry stored for one length. The scan leaves its state unassigned only on an empty
  candidate list; then the \<^verbatim>\<open>for a in torch.linspace(...)\<close> loop has not bound \<open>a\<close>
  either, and reading it raises.
\<close>

definition table_entry :: "real \<Rightarrow> (real \<times> real \<times> real) list \<Rightarrow> error + (real \<times> real)" where
  "table_entry p0 priors =
     (case scan p0 priors None of
        None \<Rightarrow> Inl UnboundLocalError
      | Some (a, b, cdf0) \<Rightarrow> Inr (a, b))"

fun fill_table :: "real \<Rightarrow> (real \<times> real \<times> real) list \<Rightarrow> nat list \<Rightarrow> (nat \<rightharpoonup> real \<times> real)
    \<Rightarrow> error + (nat \<rightharpoonup> real \<times> real)" where
  "fill_table epsilon priors [] table = Inr table"
| "fill_table epsilon priors (len # rest) table =
     (case table_entry (target_p0 epsilon len) priors of
        Inl e \<Rightarrow> Inl e
      | Inr ab \<Rightarrow> fill_table epsilon priors rest (table(len \<mapsto> ab)))"

definition create_hardkuma_prior_table ::
    "real \<Rightarrow> (real \<Rightarrow> real \<Rightarrow> real \<Rightarrow> real) \<Rightarrow> real \<Rightarrow> nat \<Rightarrow> real \<Rightarrow> real \<Rightarrow> nat
     \<Rightarrow> error + (nat \<rightharpoonup> real \<times> real)" where
  "create_hardkuma_prior_table epsilon cdf prior_param_1 max_sentence_length l r N =
     fill_table epsilon (kuma_priors epsilon cdf l r N) [1..<max_sentence_length + 1] Map.empty"

section \<open>AlignmentVAE.prior\<close>

definition size1 :: "'a list list \<Rightarrow> nat" where
  "size1 t = (case t of [] \<Rightarrow> 0 | row # _ \<Rightarrow> length row)"

definition new_full :: "nat \<times> nat \<times> nat \<Rightarrow> real \<Rightarrow> tensor3" where
  "new_full shape fill_value =
     (case shape of (B, Ty, Tx) \<Rightarrow> replicate B (replicate Ty (replicate Tx fill_value)))"

fun table_lookups :: "(nat \<rightharpoonup> real \<times> real) \<Rightarrow> nat list \<Rightarrow> error + real list" where
  "table_lookups table [] = Inr []"
| "table_lookups table (len # rest) =
     (case table len of
        None \<Rightarrow> Inl KeyError
      | Some ab \<Rightarrow>
          (case table_lookups table rest of
             Inl e \<Rightarrow> Inl e
           | Inr as \<Rightarrow> Inr (fst ab # as)))"

text \<open>
  \<open>prior\<close> returns \<open>Inr None\<close> where the Python function falls off its last branch and
  returns \<^verbatim>\<open>None\<close>. The batch is taken well-shaped: \<open>seq_len_x\<close> has one length for each
  row of \<open>seq_mask_x\<close>.
\<close>

definition prior :: "real \<Rightarrow> model \<Rightarrow> bool list list \<Rightarrow> nat list \<Rightarrow> bool list list
    \<Rightarrow> error + distribution option" where
  "prior epsilon self seq_mask_x seq_len_x seq_mask_y =
     (case prior_params self of (prior_param_1, prior_param_2) \<Rightarrow>
      let prior_shape = (length seq_mask_x, size1 seq_mask_y, size1 seq_mask_x) in
      if str_in ''bernoulli'' (dist_name self) then
        (if prior_param_1 > 0 then
           Inr (Some (BernoulliREINFORCE (Probs
             (map2 (\<lambda>mask len. replicate (size1 seq_mask_y)
                      (map (\<lambda>m. min (prior_param_1 * (of_bool m + epsilon) / (real len + 1))
                                     (1 - 0.01)) mask))
                   seq_mask_x seq_len_x))))
         else if prior_param_2 > 0 then
           Inr (Some (BernoulliREINFORCE (Probs (new_full prior_shape prior_param_2))))
         else Inl Exception)
      else if dist_name self = ''concrete'' then Inl NotImplementedError
      else if dist_name self \<in> set [''kuma'', ''hardkuma''] then
        (case
           (if prior_param_1 > 0 \<and> prior_param_2 > 0 then
              Inr (Kumaraswamy (new_full prior_shape prior_param_1)
                               (new_full prior_shape prior_param_2))
            else if dist_name self = ''hardkuma'' \<and> prior_param_1 > 0 then
              (case hardkuma_prior_table self of
                 None \<Rightarrow> Inl AttributeError
               | Some table \<Rightarrow>
                   (case table_lookups table seq_len_x of
                      Inl e \<Rightarrow> Inl e
                    | Inr as \<Rightarrow>
                        Inr (Kumaraswamy
                          (map (\<lambda>a. replicate (size1 seq_mask_y)
                                      (replicate (size1 seq_mask_x) a)) as)
                          (map (\<lambda>a. replicate (size1 seq_mask_y)
                                      (replicate (size1 seq_mask_x) 1)) as))))
            else Inl Exception)
         of Inl e \<Rightarrow> Inl e
          | Inr p \<Rightarrow>
              if dist_name self = ''kuma'' then Inr (Some p)
              else Inr (Some (Rectified01 (Stretched p (-0.1) 1.1))))
      else Inr None)"

section \<open>Library operations on distributions and tensors\<close>

text \<open>
  What the distribution classes compute is supplied by the library, so it is an argument
  of the functions below: the per-cell values of the closed-form divergence
  (\<open>kl_cells\<close>), the per-cell \<^verbatim>\<open>log_prob\<close>, which may raise, and the \<^verbatim>\<open>mean\<close>. So is
  \<open>fl\<close>, the rounding of the exact result of one scalar operation to the floating-point
  format of the tensors; a Python number that meets a tensor is rounded to that format
  first.
\<close>

record dist_ops =
  kl_cells :: "distribution \<Rightarrow> distribution \<Rightarrow> tensor3"
  log_prob :: "distribution \<Rightarrow> tensor3 \<Rightarrow> error + tensor3"
  mean :: "distribution \<Rightarrow> tensor3"
  fl :: "real \<Rightarrow> real"

text \<open>
  Modelled from the spec: the families of the specification, "Bernoulli (two gradient-estimator variants), a
  continuous binary relaxation, and a bounded continuous family (plain and a hard
  zero-one-rectified variant)". The stretching and rectifying wrappers stay in the family
  of the distribution they wrap.
\<close>

datatype family = Bernoulli_family | Relaxation_family | Bounded_family

fun family_of :: "distribution \<Rightarrow> family" where
  "family_of (BernoulliREINFORCE args) = Bernoulli_family"
| "family_of (BernoulliStraightThrough args) = Bernoulli_family"
| "family_of (BinaryConcrete temperature logits) = Relaxation_family"
| "family_of (Kumaraswamy a b) = Bounded_family"
| "family_of (Stretched d lower upper) = family_of d"
| "family_of (Rectified01 d) = family_of d"

text \<open>
  Modelled from the spec: the dispatch of \<^verbatim>\<open>torchdist.kl.kl_divergence(q, p)\<close> on the classes
  of the two distributions. The classes BernoulliREINFORCE and BernoulliStraightThrough
  (\<^verbatim>\<open>alignments/dist.py\<close>) and the formulas registered for them are not among the source
  files. The specification: the divergence is "closed-form KL, defined only between two
  instances of the same family", and between a posterior and a prior of mismatched family
  it "must fail (configuration/type error)".
\<close>

definition kl_divergence :: "dist_ops \<Rightarrow> distribution \<Rightarrow> distribution \<Rightarrow> error + tensor3" where
  "kl_divergence ops q p =
     (if family_of q = family_of p then Inr (kl_cells ops q p) else Inl TypeError)"

text \<open>
  A float that may be NaN: \<open>None\<close> is NaN, and an operation with a NaN operand gives NaN,
  also \<^verbatim>\<open>clamp\<close>, \<^verbatim>\<open>torch.max\<close>, \<^verbatim>\<open>sum\<close> and \<^verbatim>\<open>mean\<close>.
\<close>

definition lift2 :: "(real \<Rightarrow> real \<Rightarrow> real) \<Rightarrow> fnum \<Rightarrow> fnum \<Rightarrow> fnum" where
  "lift2 f a b =
     (case a of None \<Rightarrow> None | Some v \<Rightarrow> (case b of None \<Rightarrow> None | Some w \<Rightarrow> Some (f v w)))"

fun fsum :: "fnum list \<Rightarrow> fnum" where
  "fsum [] = Some 0"
| "fsum (v # vs) = lift2 (+) v (fsum vs)"

definition fmean :: "fnum list \<Rightarrow> fnum" where
  "fmean vs = map_option (\<lambda>s. s / real (length vs)) (fsum vs)"

fun collect :: "(error + 'a) list \<Rightarrow> error + 'a list" where
  "collect [] = Inr []"
| "collect (r # rs) =
     (case r of
        Inl e \<Rightarrow> Inl e
      | Inr v \<Rightarrow> (case collect rs of Inl e \<Rightarrow> Inl e | Inr vs \<Rightarrow> Inr (v # vs)))"

text \<open>
  \<^verbatim>\<open>F.cross_entropy(input, target, ignore_index, reduction="none")\<close> at one position:
  zero where the target is the ignore index, an error where the target is no class, and
  the negative log-softmax of the target's logit otherwise. In \<open>loss\<close> the
  \<^verbatim>\<open>permute(0, 2, 1)\<close> only moves the class axis to where the library expects it; here the
  logits stay in their [B, T_y, vocabulary] layout.
\<close>

definition ce_position :: "nat \<Rightarrow> vec \<Rightarrow> nat \<Rightarrow> error + real" where
  "ce_position ignore_index logit_row target =
     (if target = ignore_index then Inr 0
      else if target < length logit_row
        then Inr (- (logit_row ! target - ln (sum_list (map exp logit_row))))
      else Inl IndexError)"

definition cross_entropy :: "tensor3 \<Rightarrow> nat list list \<Rightarrow> nat \<Rightarrow> error + mat" where
  "cross_entropy logits y ignore_index =
     collect (map2 (\<lambda>rows targets. collect (map2 (ce_position ignore_index) rows targets))
                   logits y)"

text \<open>\<^verbatim>\<open>torch.round\<close>: to the nearest integer, halves to the even one.\<close>

definition torch_round :: "real \<Rightarrow> real" where
  "torch_round v =
     (if v - of_int \<lfloor>v\<rfloor> = 1 / 2
      then (if even \<lfloor>v\<rfloor> then of_int \<lfloor>v\<rfloor> else of_int \<lfloor>v\<rfloor> + 1)
      else of_int (round v))"

text \<open>
  The rounding of float32, the default format of the tensors: to the nearest number with a
  significand of 24 bits, halves to the even one. The exponent is not bounded here, so
  overflow and underflow are left out.
\<close>

definition float32 :: "real \<Rightarrow> real" where
  "float32 v =
     (if v = 0 then 0
      else let ulp = 2 powr (of_int \<lfloor>log 2 \<bar>v\<bar>\<rfloor> - 23)
           in torch_round (v / ulp) * ulp)"

text \<open>
  \<^verbatim>\<open>tensor.mean()\<close> and \<^verbatim>\<open>tensor.std()\<close> (the sample standard deviation, dividing by
  n - 1) over all elements. The deviation of fewer than two values is NaN. torch gives NaN
  for the mean of no element as well; \<open>tensor_mean\<close> is meant for the other inputs only.
\<close>

definition tensor_mean :: "real list \<Rightarrow> real" where
  "tensor_mean vs = sum_list vs / real (length vs)"

definition tensor_std :: "real list \<Rightarrow> fnum" where
  "tensor_std vs =
     (if length vs < 2 then None
      else Some (sqrt (sum_list (map (\<lambda>v. (v - tensor_mean vs)\<^sup>2) vs)
                         / real (length vs - 1))))"

section \<open>AlignmentVAE.forward and cv_self_critic\<close>

definition vec_sum :: "nat \<Rightarrow> vec list \<Rightarrow> vec" where
  "vec_sum n vs = foldr (map2 (+)) vs (replicate n 0)"

definition forward :: "real \<Rightarrow> model \<Rightarrow> nat list list \<Rightarrow> tensor3 \<Rightarrow> tensor3" where
  "forward epsilon self x A =
     map2 (\<lambda>x_row A_mat.
             let x_embed = map (src_embedder self) x_row in
             map (\<lambda>A_row.
                    let pooled_x = vec_sum (emb_size self)
                                     (map2 (\<lambda>e a. map (\<lambda>v. v * a) e) x_embed A_row)
                    in categorical_layer self
                         (if pooling self = ''avg''
                          then map (\<lambda>v. v / (sum_list A_row + epsilon)) pooled_x
                          else pooled_x))
                 A_mat)
          x A"

definition cv_self_critic :: "dist_ops \<Rightarrow> real \<Rightarrow> model \<Rightarrow> nat list list \<Rightarrow> nat list list
    \<Rightarrow> distribution \<Rightarrow> error + mat" where
  "cv_self_critic ops epsilon self x y qa =
     (let A_argmax = map (map (map torch_round)) (mean ops qa);
          logits = forward epsilon self x A_argmax
      in case cross_entropy logits y (pad_idx self) of
           Inl e \<Rightarrow> Inl e
         | Inr ce \<Rightarrow> Inr (map (map uminus) ce))"

section \<open>AlignmentVAE.update_baselines\<close>

text \<open>
  The expression \<^verbatim>\<open>self.alpha * new + (1.0 - self.alpha) * old\<close> of both assignments, every
  operation on tensors rounded. \<^verbatim>\<open>1.0 - self.alpha\<close> is Python arithmetic on two numbers;
  it is rounded to the format of the tensor when it meets one, as \<^verbatim>\<open>self.alpha\<close> is.
\<close>

definition smooth :: "dist_ops \<Rightarrow> real \<Rightarrow> real \<Rightarrow> real \<Rightarrow> real" where
  "smooth ops a new old = fl ops (fl ops (fl ops a * new) + fl ops (fl ops (1.0 - a) * old))"

definition update_baselines :: "dist_ops \<Rightarrow> model \<Rightarrow> mat \<Rightarrow> nat list \<Rightarrow> error + model" where
  "update_baselines ops self new_reward seq_len_y =
     (case rf self of
        None \<Rightarrow> Inl AttributeError
      | Some st \<Rightarrow>
          let new_reward = map2 (\<lambda>row len. sum_list row / real len) new_reward seq_len_y
          in Inr (self\<lparr>rf := Some (st\<lparr>
                avg_reward := smooth ops (alpha st) (tensor_mean new_reward) (avg_reward st),
                std_reward := lift2 (smooth ops (alpha st)) (tensor_std new_reward)
                                (std_reward st)\<rparr>)\<rparr>))"

section \<open>AlignmentVAE.loss\<close>

datatype loss_value = Scalar fnum | PerElement "fnum list"

record output_dict =
  out_log_py_xa :: mat
  out_KL :: "real list"
  out_ELBO :: "real list"
  out_reward_sc :: "mat option"
  out_reward :: "mat option"
  out_normalized_reward :: "fnum list list option"
  out_loss :: loss_value

text \<open>
  The two \<^verbatim>\<open>torch.where\<close> calls and the two sums: cells of a padding source position,
  then rows of a padding target position, are replaced by zero, and each batch element's
  cells are added up.
\<close>

definition masked_KL :: "bool list list \<Rightarrow> bool list list \<Rightarrow> tensor3 \<Rightarrow> real list" where
  "masked_KL seq_mask_x seq_mask_y KL =
     (let KL = map2 (\<lambda>mask_x KL_mat.
                       map (\<lambda>KL_row. map2 (\<lambda>m v. if m then v else 0) mask_x KL_row) KL_mat)
                    seq_mask_x KL;
          KL = map2 (\<lambda>mask_y KL_mat.
                       map2 (\<lambda>m KL_row. map (\<lambda>v. if m then v else 0) KL_row) mask_y KL_mat)
                    seq_mask_y KL
      in map (\<lambda>KL_mat. sum_list (map sum_list KL_mat)) KL)"

text \<open>
  The control variates, written out once: \<open>loss\<close> and \<open>ppo_loss\<close> apply the same three
  steps to their reward. The result is the normalized reward and the value stored under
  \<^verbatim>\<open>"reward_sc"\<close>, if any. Dividing by a NaN \<open>std_reward\<close> makes every entry NaN.
\<close>

definition control_variates :: "dist_ops \<Rightarrow> real \<Rightarrow> model \<Rightarrow> rf_state \<Rightarrow> nat list list
    \<Rightarrow> nat list list \<Rightarrow> distribution \<Rightarrow> mat \<Rightarrow> error + (fnum list list \<times> mat option)" where
  "control_variates ops epsilon self st x y qa reward =
     (case (if use_self_critic_cv st then
              (case cv_self_critic ops epsilon self x y qa of
                 Inl e \<Rightarrow> Inl e
               | Inr self_critic_score \<Rightarrow>
                   let r = map2 (map2 (-)) reward self_critic_score in Inr (r, Some r))
            else Inr (reward, None))
      of Inl e \<Rightarrow> Inl e
       | Inr (r, reward_sc) \<Rightarrow>
           let r = (if use_mean_cv st then map (map (\<lambda>v. v - avg_reward st)) r else r);
               r = (if use_std_cv st
                    then map (map (\<lambda>v. map_option (\<lambda>s. v / max s 1.0) (std_reward st))) r
                    else map (map Some) r)
           in Inr (r, reward_sc))"

definition reduce :: "string \<Rightarrow> fnum list \<Rightarrow> error + loss_value" where
  "reduce reduction l =
     (if reduction = ''mean'' then Inr (Scalar (fmean l))
      else if reduction = ''sum'' then Inr (Scalar (fsum l))
      else if reduction = ''none'' then Inr (PerElement l)
      else Inl Exception)"

text \<open>
  In \<open>loss\<close> the lines \<^verbatim>\<open>loss = neg_log_py_xa.sum(dim=-1) + KL_multiplier * KL\<close> and
  \<^verbatim>\<open>output_dict["ELBO"] = -loss + KL_multiplier * KL - KL\<close> are computed in floating
  point: the multiplier is rounded to the format of the tensors, and so is the result of
  each multiplication, addition and subtraction (a negation is exact).
\<close>

definition loss :: "dist_ops \<Rightarrow> real \<Rightarrow> model \<Rightarrow> tensor3 \<Rightarrow> nat list list \<Rightarrow> nat list list
    \<Rightarrow> tensor3 \<Rightarrow> bool list list \<Rightarrow> bool list list \<Rightarrow> distribution \<Rightarrow> distribution
    \<Rightarrow> real \<Rightarrow> string \<Rightarrow> error + output_dict" where
  "loss ops epsilon self logits x y A seq_mask_x seq_mask_y pa qa KL_multiplier reduction =
     (case cross_entropy logits y (pad_idx self) of
        Inl e \<Rightarrow> Inl e
      | Inr neg_log_py_xa \<Rightarrow>
     (case kl_divergence ops qa pa of
        Inl e \<Rightarrow> Inl e
      | Inr KL \<Rightarrow>
     (let KL = masked_KL seq_mask_x seq_mask_y KL;
          loss0 = map2 (\<lambda>nll k. fl ops (sum_list nll + fl ops (fl ops KL_multiplier * k)))
                       neg_log_py_xa KL;
          ELBO = map2 (\<lambda>l k. fl ops (fl ops (- l + fl ops (fl ops KL_multiplier * k)) - k))
                      loss0 KL
      in
     (case (if dist_name self = ''bernoulli-RF'' then
              (case rf self of
                 None \<Rightarrow> Inl AttributeError
               | Some st \<Rightarrow>
                   let reward = map (map uminus) neg_log_py_xa in
                   (case control_variates ops epsilon self st x y qa reward of
                      Inl e \<Rightarrow> Inl e
                    | Inr (normalized_reward, reward_sc) \<Rightarrow>
                        (case log_prob ops qa A of
                           Inl e \<Rightarrow> Inl e
                         | Inr lp \<Rightarrow>
                             let log_qa_sample = map (map sum_list) lp;
                                 surrogate = map fsum
                                   (map2 (map2 (\<lambda>r q. map_option (\<lambda>v. v * q) r))
                                      normalized_reward log_qa_sample)
                             in Inr (map2 (\<lambda>l s. map_option (\<lambda>v. l - v) s) loss0 surrogate,
                                     reward_sc, Some reward, Some normalized_reward))))
            else Inr (map Some loss0, None, None, None))
      of Inl e \<Rightarrow> Inl e
       | Inr (loss1, reward_sc, reward, normalized_reward) \<Rightarrow>
           (case reduce reduction loss1 of
              Inl e \<Rightarrow> Inl e
            | Inr l \<Rightarrow>
                Inr \<lparr>out_log_py_xa = map (map uminus) neg_log_py_xa,
                     out_KL = KL,
                     out_ELBO = ELBO,
                     out_reward_sc = reward_sc,
                     out_reward = reward,
                     out_normalized_reward = normalized_reward,
                     out_loss = l\<rparr>)))))"

section \<open>AlignmentVAE.ppo_loss\<close>

record ppo_output =
  ppo_loss_out :: "fnum list"
  ppo_reward :: "fnum list list"
  ppo_reward_sc :: "mat option"

text \<open>
  \<open>logits\<close> are the scores the inference network computes from the batch with the current
  parameters (see \<open>inf_forward\<close>). \<^verbatim>\<open>detach\<close> changes no value. The surrogate's
  \<^verbatim>\<open>.mean()\<close> is one number, the mean over all B * T_y positions; adding the [B]-shaped
  \<^verbatim>\<open>KL * KL_multiplier\<close> broadcasts it, so the value stored under \<^verbatim>\<open>"loss"\<close> has one
  entry for each batch element. A reward handed in by the caller holds no NaN.
\<close>

definition ppo_loss :: "dist_ops \<Rightarrow> real \<Rightarrow> model \<Rightarrow> tensor3 \<Rightarrow> nat list list \<Rightarrow> bool list list
    \<Rightarrow> nat list list \<Rightarrow> bool list list \<Rightarrow> tensor3 \<Rightarrow> distribution \<Rightarrow> distribution \<Rightarrow> mat
    \<Rightarrow> real \<Rightarrow> real \<Rightarrow> mat option \<Rightarrow> error + ppo_output" where
  "ppo_loss ops epsilon self logits x seq_mask_x y seq_mask_y A pa qa_init log_py_xa eps
       KL_multiplier reward =
     (case log_prob ops qa_init A of
        Inl e \<Rightarrow> Inl e
      | Inr lp_init \<Rightarrow>
     (case inf_forward (dist_name self) logits of
        Inl e \<Rightarrow> Inl e
      | Inr qa_new \<Rightarrow>
     (case log_prob ops qa_new A of
        Inl e \<Rightarrow> Inl e
      | Inr lp_new \<Rightarrow>
     (let log_qa_init = map (map sum_list) lp_init;
          log_qa_new = map (map sum_list) lp_new;
          ratio = map2 (map2 (\<lambda>n i. exp (n - i))) log_qa_new log_qa_init;
          ratio_c = map (map (clamp (1.0 - eps) (1.0 + eps))) ratio
      in
     (case (case reward of
              Some r \<Rightarrow> Inr (map (map Some) r, None)
            | None \<Rightarrow>
                (case rf self of
                   None \<Rightarrow> Inl AttributeError
                 | Some st \<Rightarrow> control_variates ops epsilon self st x y qa_new log_py_xa))
      of Inl e \<Rightarrow> Inl e
       | Inr (reward, reward_sc) \<Rightarrow>
     (case kl_divergence ops qa_new pa of
        Inl e \<Rightarrow> Inl e
      | Inr KL \<Rightarrow>
          let KL = masked_KL seq_mask_x seq_mask_y KL;
              surrogate = fmean (concat
                (map2 (map2 (lift2 max))
                   (map2 (map2 (\<lambda>r v. map_option (\<lambda>w. - w * v) r)) reward ratio)
                   (map2 (map2 (\<lambda>r v. map_option (\<lambda>w. - w * v) r)) reward ratio_c)))
          in Inr \<lparr>ppo_loss_out = map (\<lambda>k. map_option (\<lambda>s. s + k * KL_multiplier) surrogate) KL,
                  ppo_reward = reward,
                  ppo_reward_sc = reward_sc\<rparr>))))))"

section \<open>AlignmentVAE.__init__\<close>

text \<open>
  The constructor, as far as the model object above goes: the embedding and the output
  layer are given, the baselines start at \<open>(0, 1)\<close> with the smoothing factor \<open>0.05\<close>
  for \<open>"bernoulli-RF"\<close>, and the prior table is built for \<open>"hardkuma"\<close> with the default
  bounds and resolution of \<^verbatim>\<open>_create_hardkuma_prior_table\<close>.
\<close>

definition AlignmentVAE_init :: "real \<Rightarrow> (real \<Rightarrow> real \<Rightarrow> real \<Rightarrow> real) \<Rightarrow> string
    \<Rightarrow> real \<times> real \<Rightarrow> nat \<Rightarrow> string \<Rightarrow> nat \<Rightarrow> (nat \<Rightarrow> vec) \<Rightarrow> (vec \<Rightarrow> vec) \<Rightarrow> nat
    \<Rightarrow> bool \<Rightarrow> bool \<Rightarrow> bool \<Rightarrow> error + model" where
  "AlignmentVAE_init epsilon cdf dist_name' prior_params' pad_idx' pooling' emb_size'
       src_embedder' categorical_layer' max_sentence_length
       use_mean_cv' use_std_cv' use_self_critic_cv' =
     (case (if dist_name' = ''hardkuma''
            then (case create_hardkuma_prior_table epsilon cdf (fst prior_params')
                         max_sentence_length (- 0.1) 1.1 10000 of
                    Inl e \<Rightarrow> Inl e
                  | Inr table \<Rightarrow> Inr (Some table))
            else Inr None)
      of Inl e \<Rightarrow> Inl e
       | Inr table \<Rightarrow>
           Inr \<lparr>dist_name = dist_name', prior_params = prior_params', pad_idx = pad_idx',
                pooling = pooling', emb_size = emb_size', src_embedder = src_embedder',
                categorical_layer = categorical_layer',
                rf = (if dist_name' = ''bernoulli-RF''
                      then Some \<lparr>avg_reward = 0, std_reward = Some 1, alpha = 0.05,
                                 use_mean_cv = use_mean_cv', use_std_cv = use_std_cv',
                                 use_self_critic_cv = use_self_critic_cv'\<rparr>
                      else None),
                hardkuma_prior_table = table\<rparr>)"

section \<open>Example inputs\<close>

text \<open>
  A small model and library operations with fixed answers, used to instantiate the
  theorems below at concrete inputs. A REINFORCE model starts with the baselines
  \<open>(0, 1)\<close> and the smoothing factor \<open>0.05\<close>, as the constructor sets them.
\<close>

definition example_rf :: "real \<Rightarrow> fnum \<Rightarrow> bool \<Rightarrow> rf_state" where
  "example_rf avg std std_cv =
     \<lparr>avg_reward = avg, std_reward = std, alpha = 0.05, use_mean_cv = False,
      use_std_cv = std_cv, use_self_critic_cv = False\<rparr>"

definition example_model :: "string \<Rightarrow> real \<times> real \<Rightarrow> model" where
  "example_model d params =
     \<lparr>dist_name = d, prior_params = params, pad_idx = 0, pooling = ''sum'', emb_size = 1,
      src_embedder = (\<lambda>w. [1]), categorical_layer = (\<lambda>v. [0, 0]),
      rf = (if d = ''bernoulli-RF'' then Some (example_rf 0 (Some 1) False) else None),
      hardkuma_prior_table = None\<rparr>"

definition example_ops :: "(real \<Rightarrow> real) \<Rightarrow> tensor3 \<Rightarrow> tensor3 \<Rightarrow> dist_ops" where
  "example_ops rounding kl lp =
     \<lparr>kl_cells = (\<lambda>q p. kl), log_prob = (\<lambda>q A. Inr lp), mean = (\<lambda>q. []), fl = rounding\<rparr>"

section \<open>The dispatch on the distribution family\<close>


text \<open>
  Claim C9. The inference network raises NotImplementedError for the bounded family
  (\<open>"kuma"\<close> and \<open>"hardkuma"\<close>) whatever the scores are, and \<open>prior\<close> raises
  NotImplementedError for the \<open>"concrete"\<close> family whatever the batch and the prior
  parameters are. Neither returns a distribution of another family.
\<close>

theorem unsupported_families_raise:
  "(d \<in> {''kuma'', ''hardkuma''} \<longrightarrow> inf_forward d logits = Inl NotImplementedError)
   \<and> (dist_name self = ''concrete''
        \<longrightarrow> prior epsilon self seq_mask_x seq_len_x seq_mask_y = Inl NotImplementedError)"
  by (auto simp: inf_forward_def prior_def split: prod.splits)

theorem unsupported_families_raise_witness:
  "''hardkuma'' \<in> {''kuma'', ''hardkuma''}
   \<and> inf_forward ''hardkuma'' [[[0]]] = Inl NotImplementedError
   \<and> dist_name (example_model ''concrete'' (1, 1)) = ''concrete''
   \<and> prior (1 / 1000000) (example_model ''concrete'' (1, 1)) [[True]] [1] [[True]]
        = Inl NotImplementedError"
  using unsupported_families_raise [of "''hardkuma''" "[[[0]]]" "example_model ''concrete'' (1, 1)"
          "1 / 1000000" "[[True]]" "[1]" "[[True]]"]
  by (simp add: example_model_def)

text \<open>
  Claim C7. For a configuration whose \<open>dist\<close> contains \<open>"bernoulli"\<close> and a well-shaped
  batch: if \<open>prior_param_1 > 0\<close>, \<open>prior\<close> returns a Bernoulli whose probability at batch
  element \<open>b\<close>, target position \<open>j\<close>, source position \<open>i\<close> is
  \<open>prior_param_1 * (mask + epsilon) / (source length + 1)\<close> capped at 0.99, the same for every
  \<open>j\<close>; otherwise, if \<open>prior_param_2 > 0\<close>, every cell has the probability
  \<open>prior_param_2\<close>; otherwise \<open>prior\<close> raises.
\<close>

theorem prior_bernoulli_probs:
  assumes "str_in ''bernoulli'' (dist_name self)"
      and "prior_params self = (prior_param_1, prior_param_2)"
      and "length seq_len_x = length seq_mask_x"
  shows "(prior_param_1 > 0 \<longrightarrow>
            (\<exists>probs. prior epsilon self seq_mask_x seq_len_x seq_mask_y
                       = Inr (Some (BernoulliREINFORCE (Probs probs)))
               \<and> length probs = length seq_mask_x
               \<and> (\<forall>b < length seq_mask_x. length (probs ! b) = size1 seq_mask_y
                    \<and> (\<forall>j < size1 seq_mask_y. length (probs ! b ! j) = length (seq_mask_x ! b)
                         \<and> (\<forall>i < length (seq_mask_x ! b).
                               probs ! b ! j ! i =
                                 min (prior_param_1 * (of_bool (seq_mask_x ! b ! i) + epsilon)
                                        / (real (seq_len_x ! b) + 1)) 0.99)))))
       \<and> (\<not> prior_param_1 > 0 \<and> prior_param_2 > 0 \<longrightarrow>
            prior epsilon self seq_mask_x seq_len_x seq_mask_y
              = Inr (Some (BernoulliREINFORCE (Probs
                  (replicate (length seq_mask_x) (replicate (size1 seq_mask_y)
                     (replicate (size1 seq_mask_x) prior_param_2)))))))
       \<and> (\<not> prior_param_1 > 0 \<and> \<not> prior_param_2 > 0 \<longrightarrow>
            prior epsilon self seq_mask_x seq_len_x seq_mask_y = Inl Exception)"
  using assms by (simp add: prior_def new_full_def)

theorem prior_bernoulli_probs_witness:
  "str_in ''bernoulli'' (dist_name (example_model ''bernoulli-ST'' (1, 0)))
   \<and> prior_params (example_model ''bernoulli-ST'' (1, 0)) = (1, 0)
   \<and> length [2::nat] = length [[True, False]]
   \<and> prior (1 / 1000000) (example_model ''bernoulli-ST'' (1, 0)) [[True, False]] [2] [[True]]
       = Inr (Some (BernoulliREINFORCE (Probs [[[1000001 / 3000000, 1 / 3000000]]])))"
  using prior_bernoulli_probs [of "example_model ''bernoulli-ST'' (1, 0)" 1 0 "[2]"
          "[[True, False]]" "1 / 1000000" "[[True]]"]
  by (simp add: example_model_def size1_def prior_def)

section \<open>The prior table\<close>

lemma scan_Some_mem: "scan p0 es (Some e0) \<in> Some ` (insert e0 (set es))"
  by (induction es arbitrary: e0) (auto split: prod.splits)

lemma scan_None_mem: "es \<noteq> [] \<Longrightarrow> scan p0 es None \<in> Some ` set es"
proof (cases es)
  case Nil
  assume "es \<noteq> []"
  with Nil show ?thesis by simp
next
  case (Cons e rest)
  show ?thesis using scan_Some_mem[of p0 rest e] by (simp add: Cons)
qed

lemma scan_exhaust_Some:
  "\<forall>e \<in> insert e0 (set es). snd (snd e) > p0
   \<Longrightarrow> scan p0 es (Some e0) = Some (last (e0 # es))"
  by (induction es arbitrary: e0) (auto split: prod.splits)

lemma scan_exhaust:
  "es \<noteq> [] \<Longrightarrow> \<forall>e \<in> set es. snd (snd e) > p0 \<Longrightarrow> scan p0 es None = Some (last es)"
  using scan_exhaust_Some by (cases es) auto

lemma kuma_priors_set:
  "set (kuma_priors epsilon cdf l r N)
     = (\<lambda>a. (a, 1, cdf a 1 (- l / (r - l)))) ` set (linspace epsilon 1 N)"
  by (simp add: kuma_priors_def Let_def)

lemma kuma_priors_nonempty: "1 \<le> N \<Longrightarrow> kuma_priors epsilon cdf l r N \<noteq> []"
proof -
  assume "1 \<le> N"
  then have "set (linspace epsilon 1 N) \<noteq> {}" by (simp add: linspace_def)
  then have "set (kuma_priors epsilon cdf l r N) \<noteq> {}" unfolding kuma_priors_set by simp
  then show ?thesis by auto
qed

lemma kuma_priors_b: "e \<in> set (kuma_priors epsilon cdf l r N) \<Longrightarrow> fst (snd e) = 1"
  unfolding kuma_priors_set by auto

lemma table_entry_nonempty:
  assumes "priors \<noteq> []"
  shows "\<exists>e \<in> set priors. scan p0 priors None = Some e
           \<and> table_entry p0 priors = Inr (fst e, fst (snd e))"
  using scan_None_mem[OF assms, of p0]
  by (auto simp: table_entry_def split: prod.splits)

lemma fill_table_entries:
  assumes "\<forall>len \<in> set ls. table_entry (target_p0 epsilon len) priors = Inr (f len)"
  shows "fill_table epsilon priors ls table =
         Inr (\<lambda>k. if k \<in> set ls then Some (f k) else table k)"
  using assms
proof (induction ls arbitrary: table)
  case Nil
  then show ?case by simp
next
  case (Cons len rest)
  then show ?case by (simp add: fun_eq_iff)
qed

text \<open>
  Claim C6. With at least one candidate (\<open>N \<ge> 1\<close>; the constructor uses the default
  10000), building the table for the maximum length \<open>M\<close> returns a table, without an
  error, that has an entry \<open>(a, 1)\<close> for every length from 1 to \<open>M\<close>. Where every
  candidate's cumulative-at-zero stays above the target of a length, the entry of that
  length is the \<open>(a, b)\<close> of the last candidate of the sorted list.
\<close>

theorem prior_table_complete:
  assumes "1 \<le> N"
  shows "\<exists>table. create_hardkuma_prior_table epsilon cdf prior_param_1 M l r N = Inr table
     \<and> (\<forall>len. 1 \<le> len \<and> len \<le> M \<longrightarrow> (\<exists>a. table len = Some (a, 1)))
     \<and> (\<forall>len. 1 \<le> len \<and> len \<le> M
           \<and> (\<forall>e \<in> set (kuma_priors epsilon cdf l r N). snd (snd e) > target_p0 epsilon len)
          \<longrightarrow> table len = Some (fst (last (kuma_priors epsilon cdf l r N)),
                                  fst (snd (last (kuma_priors epsilon cdf l r N)))))"
proof -
  let ?ps = "kuma_priors epsilon cdf l r N"
  have ne: "?ps \<noteq> []" using assms by (rule kuma_priors_nonempty)
  define f where "f len = (case scan (target_p0 epsilon len) ?ps None of
                             None \<Rightarrow> (0, 0) | Some e \<Rightarrow> (fst e, fst (snd e)))" for len
  have f: "table_entry (target_p0 epsilon len) ?ps = Inr (f len)" for len
    using table_entry_nonempty[OF ne, of "target_p0 epsilon len"] by (auto simp: f_def)
  let ?t = "\<lambda>k. if k \<in> set [1..<M + 1] then Some (f k) else None"
  have t: "create_hardkuma_prior_table epsilon cdf prior_param_1 M l r N = Inr ?t"
    unfolding create_hardkuma_prior_table_def
    by (rule fill_table_entries) (simp add: f)
  have b: "\<exists>a. ?t len = Some (a, 1)" if "1 \<le> len \<and> len \<le> M" for len
  proof -
    obtain e where e: "scan (target_p0 epsilon len) ?ps None = Some e" "e \<in> set ?ps"
      using scan_None_mem[OF ne, of "target_p0 epsilon len"] by auto
    then have "fst (snd e) = 1" using kuma_priors_b by blast
    then show ?thesis using that e by (auto simp: f_def)
  qed
  have x: "?t len = Some (fst (last ?ps), fst (snd (last ?ps)))"
    if "1 \<le> len \<and> len \<le> M \<and> (\<forall>e \<in> set ?ps. snd (snd e) > target_p0 epsilon len)" for len
    using that scan_exhaust[OF ne, of "target_p0 epsilon len"]
    by (auto simp: f_def)
  show ?thesis using t b x by blast
qed

theorem prior_table_complete_witness:
  "(1::nat) \<le> 2
   \<and> (\<exists>table. create_hardkuma_prior_table (1 / 1000000) (\<lambda>a b x. 1) 1 2 (- 0.1) 1.1 2 = Inr table
         \<and> (\<exists>a. table 1 = Some (a, 1)) \<and> (\<exists>a. table 2 = Some (a, 1)))"
proof -
  have n: "(1::nat) \<le> 2" by simp
  obtain table where
    t: "create_hardkuma_prior_table (1 / 1000000) (\<lambda>a b x. 1) 1 2 (- 0.1) 1.1 2 = Inr table"
    and b: "\<forall>len. 1 \<le> len \<and> len \<le> 2 \<longrightarrow> (\<exists>a. table len = Some (a, 1))"
    using prior_table_complete [OF n, of "1 / 1000000" "\<lambda>a b x. 1" 1 2 "- 0.1" "1.1"] by blast
  have "\<exists>a. table 1 = Some (a, 1)" using b by simp
  moreover have "\<exists>a. table 2 = Some (a, 1)" using b by simp
  ultimately show ?thesis using n t by blast
qed

text \<open>
  Claim C2, as the code has it. The target zero-probability of a length is
  \<open>1 - min ((1 + epsilon) / (length + 1)) (1 - epsilon)\<close>, and for \<open>epsilon \<ge> -1\<close> (the
  constant is a small positive number) it does not decrease as the length grows: for
  lengths \<open>L1 \<le> L2\<close>, \<open>p0(L1) \<le> p0(L2)\<close>.
\<close>

theorem target_p0_nondecreasing:
  assumes "- 1 \<le> epsilon" and "L1 \<le> L2"
  shows "target_p0 epsilon L1 = 1 - min ((1 + epsilon) / (real L1 + 1)) (1 - epsilon)
         \<and> target_p0 epsilon L1 \<le> target_p0 epsilon L2"
proof -
  have "(1 + epsilon) / (real L2 + 1) \<le> (1 + epsilon) / (real L1 + 1)"
    using assms by (intro divide_left_mono) auto
  then show ?thesis unfolding target_p0_def by (simp add: min_def)
qed

theorem target_p0_nondecreasing_witness:
  "- 1 \<le> (1 / 1000000 :: real) \<and> (1::nat) \<le> 2
   \<and> target_p0 (1 / 1000000) 1 \<le> target_p0 (1 / 1000000) 2"
  using target_p0_nondecreasing [of "1 / 1000000" 1 2] by simp

text \<open>
  The target of length 1 is strictly below the target of length 2 (about 0.5 against
  about 0.667), so the target does not shrink with the length.
\<close>

theorem target_p0_counterexample:
  "\<not> target_p0 (1 / 1000000) 1 \<ge> target_p0 (1 / 1000000) 2"
  by (simp add: target_p0_def)

section \<open>Rounding to the floating-point format\<close>


lemma floor_log2_unique:
  assumes "2 powr (of_int e) \<le> \<bar>v\<bar>" and "\<bar>v\<bar> < 2 powr (of_int e + 1)"
  shows "\<lfloor>log 2 \<bar>v\<bar>\<rfloor> = e"
proof -
  have pos: "0 < \<bar>v\<bar>" using assms(1) powr_gt_zero[of 2 "of_int e"] by linarith
  have 1: "of_int e \<le> log 2 \<bar>v\<bar>" using assms(1) pos by (simp add: le_log_iff)
  have 2: "log 2 \<bar>v\<bar> < of_int e + 1" using assms(2) pos by (simp add: log_less_iff)
  show ?thesis using 1 2 by (simp add: floor_unique)
qed

lemma float32_binade:
  assumes "2 powr (of_int e) \<le> \<bar>v\<bar>" and "\<bar>v\<bar> < 2 powr (of_int e + 1)"
  shows "float32 v = torch_round (v / 2 powr (of_int e - 23)) * 2 powr (of_int e - 23)"
proof -
  have "0 < \<bar>v\<bar>" using assms(1) powr_gt_zero[of 2 "of_int e"] by linarith
  then have "v \<noteq> 0" by auto
  then show ?thesis using floor_log2_unique[OF assms] by (simp add: float32_def Let_def)
qed


lemma float32_0: "float32 0 = 0" by (simp add: float32_def)

lemma torch_round_int: "torch_round (of_int k) = of_int k"
  by (simp add: torch_round_def)

lemma torch_round_numeral: "torch_round (numeral k) = numeral k"
  using torch_round_int[of "numeral k"] by simp


lemma float32_1: "float32 1 = 1"
proof -
  have "float32 1 = torch_round (1 / 2 powr (of_int 0 - 23)) * 2 powr (of_int 0 - 23)"
    by (rule float32_binade) simp_all
  then show ?thesis by (simp add: powr_minus_divide torch_round_numeral)
qed

















section \<open>The objective\<close>

lemma sum_list_nth_lessThan: "sum_list xs = (\<Sum>i<length xs. xs ! i)"
  by (simp add: sum_list_sum_nth atLeast0LessThan)

lemma sum_list_map_nth: "sum_list (map f xs) = (\<Sum>i<length xs. f (xs ! i))"
proof -
  have "sum_list (map f xs) = (\<Sum>i<length (map f xs). map f xs ! i)"
    by (rule sum_list_nth_lessThan)
  also have "\<dots> = (\<Sum>i<length xs. f (xs ! i))"
    by (intro sum.cong) auto
  finally show ?thesis .
qed

lemma masked_KL_length:
  "length (masked_KL seq_mask_x seq_mask_y KL)
     = min (length seq_mask_y) (min (length seq_mask_x) (length KL))"
  by (simp add: masked_KL_def Let_def)

lemma masked_KL_nth:
  assumes "b < length KL" and "length seq_mask_x = length KL" and "length seq_mask_y = length KL"
      and "length (KL ! b) = length (seq_mask_y ! b)"
      and "\<forall>j < length (KL ! b). length (KL ! b ! j) = length (seq_mask_x ! b)"
  shows "masked_KL seq_mask_x seq_mask_y KL ! b =
         (\<Sum>j < length (seq_mask_y ! b). \<Sum>i < length (seq_mask_x ! b).
            if seq_mask_y ! b ! j \<and> seq_mask_x ! b ! i then KL ! b ! j ! i else 0)"
proof -
  let ?mx = "seq_mask_x ! b" and ?my = "seq_mask_y ! b" and ?K = "KL ! b"
  let ?M = "map2 (\<lambda>m KL_row. map (\<lambda>v. if m then v else 0) KL_row) ?my
              (map (\<lambda>KL_row. map2 (\<lambda>m v. if m then v else 0) ?mx KL_row) ?K)"
  have 0: "masked_KL seq_mask_x seq_mask_y KL ! b = sum_list (map sum_list ?M)"
    using assms(1-3) by (simp add: masked_KL_def Let_def)
  have len: "length ?M = length ?my" using assms(4) by simp
  have row: "sum_list (?M ! j) = (\<Sum>i < length ?mx. if ?my ! j \<and> ?mx ! i then ?K ! j ! i else 0)"
    if "j < length ?my" for j
  proof -
    have j: "j < length ?K" using that assms(4) by simp
    then have l: "length (?K ! j) = length ?mx" using assms(5) by simp
    have "?M ! j = map (\<lambda>v. if ?my ! j then v else 0) (map2 (\<lambda>m v. if m then v else 0) ?mx (?K ! j))"
      using that j by simp
    then have "sum_list (?M ! j) = (\<Sum>i < length ?mx. (map (\<lambda>v. if ?my ! j then v else 0) (map2 (\<lambda>m v. if m then v else 0) ?mx (?K ! j))) ! i)"
      using l by (simp add: sum_list_nth_lessThan)
    also have "\<dots> = (\<Sum>i < length ?mx. if ?my ! j \<and> ?mx ! i then ?K ! j ! i else 0)"
      using l by (intro sum.cong) auto
    finally show ?thesis .
  qed
  have "sum_list (map sum_list ?M) = (\<Sum>j < length ?M. sum_list (?M ! j))"
    by (rule sum_list_map_nth)
  also have "\<dots> = (\<Sum>j < length ?my. sum_list (?M ! j))"
    unfolding len ..
  also have "\<dots> = (\<Sum>j < length ?my. \<Sum>i < length ?mx. if ?my ! j \<and> ?mx ! i then ?K ! j ! i else 0)"
    using row by (intro sum.cong) auto
  finally show ?thesis using 0 by simp
qed

lemma collect_Inr:
  "collect rs = Inr vs \<Longrightarrow> length vs = length rs \<and> (\<forall>i < length rs. rs ! i = Inr (vs ! i))"
proof (induction rs arbitrary: vs)
  case Nil
  then show ?case by simp
next
  case (Cons r rs)
  then show ?case
    by (auto split: sum.splits simp: nth_Cons split: nat.splits)
qed

lemma cross_entropy_nth:
  assumes "cross_entropy logits y ignore_index = Inr nll"
      and "b < length y" "b < length logits" "j < length (y ! b)" "j < length (logits ! b)"
  shows "ce_position ignore_index (logits ! b ! j) (y ! b ! j) = Inr (nll ! b ! j)"
proof -
  let ?rows = "map2 (\<lambda>rows targets. collect (map2 (ce_position ignore_index) rows targets)) logits y"
  have c: "collect ?rows = Inr nll" using assms(1) by (simp add: cross_entropy_def)
  have b: "b < length ?rows" using assms(2,3) by simp
  from collect_Inr[OF c] b have "?rows ! b = Inr (nll ! b)" by blast
  then have r: "collect (map2 (ce_position ignore_index) (logits ! b) (y ! b)) = Inr (nll ! b)"
    using assms(2,3) by simp
  have j: "j < length (map2 (ce_position ignore_index) (logits ! b) (y ! b))"
    using assms(4,5) by simp
  from collect_Inr[OF r] j
  have "map2 (ce_position ignore_index) (logits ! b) (y ! b) ! j = Inr (nll ! b ! j)" by blast
  then show ?thesis using assms(4,5) by simp
qed

lemma cross_entropy_ignore:
  assumes "cross_entropy logits y ignore_index = Inr nll"
      and "b < length y" "b < length logits" "j < length (y ! b)" "j < length (logits ! b)"
      and "y ! b ! j = ignore_index"
  shows "nll ! b ! j = 0"
  using cross_entropy_nth[OF assms(1-5)] assms(6) by (simp add: ce_position_def)

lemma map2_map2_right: "map2 f (map2 g xs ys) ys = map2 (\<lambda>x y. f (g x y) y) xs ys"
proof (induction xs arbitrary: ys)
  case Nil
  then show ?case by simp
next
  case (Cons x xs)
  then show ?case by (cases ys) auto
qed

lemma cross_entropy_length:
  assumes "cross_entropy logits y ignore_index = Inr nll"
      and "b < length y" "b < length logits"
  shows "length nll = min (length logits) (length y)
         \<and> length (nll ! b) = min (length (logits ! b)) (length (y ! b))"
proof -
  let ?rows = "map2 (\<lambda>rows targets. collect (map2 (ce_position ignore_index) rows targets)) logits y"
  have c: "collect ?rows = Inr nll" using assms(1) by (simp add: cross_entropy_def)
  have b: "b < length ?rows" using assms(2,3) by simp
  from collect_Inr[OF c] b have "?rows ! b = Inr (nll ! b)" by blast
  then have r: "collect (map2 (ce_position ignore_index) (logits ! b) (y ! b)) = Inr (nll ! b)"
    using assms(2,3) by simp
  show ?thesis using collect_Inr[OF c] collect_Inr[OF r] by simp
qed

lemma loss_Inr:
  assumes "loss ops epsilon self logits x y A seq_mask_x seq_mask_y pa qa KL_multiplier reduction
             = Inr out"
  shows "\<exists>nll K. cross_entropy logits y (pad_idx self) = Inr nll
           \<and> kl_divergence ops qa pa = Inr K
           \<and> out_log_py_xa out = map (map uminus) nll
           \<and> out_KL out = masked_KL seq_mask_x seq_mask_y K
           \<and> out_ELBO out =
               map2 (\<lambda>n k. fl ops (fl ops (- fl ops (sum_list n + fl ops (fl ops KL_multiplier * k))
                                              + fl ops (fl ops KL_multiplier * k)) - k))
                    nll (masked_KL seq_mask_x seq_mask_y K)
           \<and> (dist_name self \<noteq> ''bernoulli-RF'' \<longrightarrow>
                reduce reduction
                  (map Some (map2 (\<lambda>n k. fl ops (sum_list n + fl ops (fl ops KL_multiplier * k)))
                                  nll (masked_KL seq_mask_x seq_mask_y K)))
                  = Inr (out_loss out))
           \<and> (dist_name self = ''bernoulli-RF'' \<longrightarrow>
                (\<exists>st normalized_reward reward_sc lp.
                    rf self = Some st
                  \<and> control_variates ops epsilon self st x y qa (map (map uminus) nll)
                      = Inr (normalized_reward, reward_sc)
                  \<and> out_normalized_reward out = Some normalized_reward
                  \<and> log_prob ops qa A = Inr lp
                  \<and> reduce reduction
                       (map2 (\<lambda>l s. map_option (\<lambda>v. l - v) s)
                          (map2 (\<lambda>n k. fl ops (sum_list n + fl ops (fl ops KL_multiplier * k)))
                                nll (masked_KL seq_mask_x seq_mask_y K))
                          (map fsum (map2 (map2 (\<lambda>r q. map_option (\<lambda>v. v * q) r))
                                       normalized_reward (map (map sum_list) lp))))
                      = Inr (out_loss out)))"
proof -
  obtain nll where nll: "cross_entropy logits y (pad_idx self) = Inr nll"
    using assms by (auto simp: loss_def split: sum.splits)
  obtain K where K: "kl_divergence ops qa pa = Inr K"
    using assms nll by (auto simp: loss_def split: sum.splits)
  note E = map2_map2_right
    [of "\<lambda>l k. fl ops (fl ops (- l + fl ops (fl ops KL_multiplier * k)) - k)"
        "\<lambda>n k. fl ops (sum_list n + fl ops (fl ops KL_multiplier * k))"
        nll "masked_KL seq_mask_x seq_mask_y K"]
  show ?thesis
  proof (cases "dist_name self = ''bernoulli-RF''")
    case True
    then show ?thesis using assms nll K E
      by (auto simp: loss_def Let_def split: sum.splits option.splits prod.splits)
  next
    case False
    then show ?thesis using assms nll K E
      by (auto simp: loss_def Let_def split: sum.splits)
  qed
qed

lemma ex_loss_ST:
  "loss (example_ops (\<lambda>v. v) [[[1, 10], [100, 1000]]] []) (1 / 1000000)
        (example_model ''bernoulli-ST'' (1, 0)) [[[0, 0], [5, 7]]] [[0, 0]] [[1, 0]] []
        [[True, False]] [[True, False]] (BernoulliREINFORCE (Probs []))
        (BernoulliStraightThrough (Logits [])) 3 ''sum''
   = Inr \<lparr>out_log_py_xa = [[- ln 2, 0]], out_KL = [1], out_ELBO = [- ln 2 - 1],
          out_reward_sc = None, out_reward = None, out_normalized_reward = None,
          out_loss = Scalar (Some (ln 2 + 3))\<rparr>"
  by (simp add: loss_def example_ops_def example_model_def cross_entropy_def ce_position_def
        masked_KL_def reduce_def kl_divergence_def lift2_def)

text \<open>
  Claim C3. Whenever \<open>loss\<close> returns: the reconstruction term of a target position whose
  token is the padding index is zero, whatever the logits at that position are; and for a
  divergence tensor \<open>K\<close> of the shape of the masks, the KL of batch element \<open>b\<close> is the sum of
  \<open>K\<close> over the cells whose source and target positions are both valid, every other cell
  contributing zero whatever its value is.
\<close>

theorem padding_contributes_zero:
  assumes "loss ops epsilon self logits x y A seq_mask_x seq_mask_y pa qa KL_multiplier reduction = Inr out"
  shows "(\<forall>b j. b < length y \<and> b < length logits \<and> j < length (y ! b) \<and> j < length (logits ! b)
              \<and> y ! b ! j = pad_idx self
            \<longrightarrow> out_log_py_xa out ! b ! j = 0)
       \<and> (\<exists>K. kl_divergence ops qa pa = Inr K
            \<and> (\<forall>b. b < length K \<and> length seq_mask_x = length K \<and> length seq_mask_y = length K
                    \<and> length (K ! b) = length (seq_mask_y ! b)
                    \<and> (\<forall>j < length (K ! b). length (K ! b ! j) = length (seq_mask_x ! b))
                  \<longrightarrow> out_KL out ! b =
                        (\<Sum>j < length (seq_mask_y ! b). \<Sum>i < length (seq_mask_x ! b).
                           if seq_mask_y ! b ! j \<and> seq_mask_x ! b ! i then K ! b ! j ! i else 0)))"
proof -
  from loss_Inr[OF assms] obtain nll K where
    nll: "cross_entropy logits y (pad_idx self) = Inr nll"
    and K: "kl_divergence ops qa pa = Inr K"
    and lp: "out_log_py_xa out = map (map uminus) nll"
    and kl: "out_KL out = masked_KL seq_mask_x seq_mask_y K"
    by blast
  have 1: "out_log_py_xa out ! b ! j = 0"
    if h: "b < length y \<and> b < length logits \<and> j < length (y ! b) \<and> j < length (logits ! b)
           \<and> y ! b ! j = pad_idx self" for b j
  proof -
    have z: "nll ! b ! j = 0" using cross_entropy_ignore[OF nll] h by blast
    have "b < length nll" "j < length (nll ! b)" using cross_entropy_length[OF nll] h by auto
    then show ?thesis using z lp by simp
  qed
  have 2: "out_KL out ! b =
            (\<Sum>j < length (seq_mask_y ! b). \<Sum>i < length (seq_mask_x ! b).
               if seq_mask_y ! b ! j \<and> seq_mask_x ! b ! i then K ! b ! j ! i else 0)"
    if "b < length K \<and> length seq_mask_x = length K \<and> length seq_mask_y = length K
        \<and> length (K ! b) = length (seq_mask_y ! b)
        \<and> (\<forall>j < length (K ! b). length (K ! b ! j) = length (seq_mask_x ! b))" for b
    unfolding kl using that by (intro masked_KL_nth) auto
  show ?thesis using 1 2 K by blast
qed

theorem padding_contributes_zero_witness:
  "loss (example_ops (\<lambda>v. v) [[[1, 10], [100, 1000]]] []) (1 / 1000000)
        (example_model ''bernoulli-ST'' (1, 0)) [[[0, 0], [5, 7]]] [[0, 0]] [[1, 0]] []
        [[True, False]] [[True, False]] (BernoulliREINFORCE (Probs []))
        (BernoulliStraightThrough (Logits [])) 3 ''sum''
   = Inr \<lparr>out_log_py_xa = [[- ln 2, 0]], out_KL = [1], out_ELBO = [- ln 2 - 1],
          out_reward_sc = None, out_reward = None, out_normalized_reward = None,
          out_loss = Scalar (Some (ln 2 + 3))\<rparr>
   \<and> [[1, 0 :: nat]] ! 0 ! 1 = pad_idx (example_model ''bernoulli-ST'' (1, 0))
   \<and> [[- ln 2, 0 :: real]] ! 0 ! 1 = 0
   \<and> [1 :: real] ! 0 = (\<Sum>j < 2. \<Sum>i < 2.
        if [[True, False]] ! 0 ! j \<and> [[True, False]] ! 0 ! i
        then [[[1, 10], [100, 1000 :: real]]] ! 0 ! j ! i else 0)"
proof -
  note w = padding_contributes_zero [OF ex_loss_ST]
  have p: "[[1, 0 :: nat]] ! 0 ! 1 = pad_idx (example_model ''bernoulli-ST'' (1, 0))"
    by (simp add: example_model_def)
  have 1: "[[- ln 2, 0 :: real]] ! 0 ! 1 = 0" using w p by simp
  have 2: "[1 :: real] ! 0 = (\<Sum>j < 2. \<Sum>i < 2.
        if [[True, False]] ! 0 ! j \<and> [[True, False]] ! 0 ! i
        then [[[1, 10], [100, 1000 :: real]]] ! 0 ! j ! i else 0)"
    using w by (simp add: numeral_2_eq_2 lessThan_Suc)
  show ?thesis using ex_loss_ST p 1 2 by blast
qed










lemma float32_ln2_ne: "float32 (ln 2) - ln 2 \<noteq> float32 (ln 2)"
  by simp



section \<open>The clipped objective\<close>

lemma surrogate_fused:
  "map2 (map2 (lift2 max))
        (map2 (map2 (\<lambda>r v. map_option (\<lambda>w. - w * v) r)) reward
           (map2 (map2 (\<lambda>n i. exp (n - i))) (map (map sum_list) lp_new)
                                              (map (map sum_list) lp_init)))
        (map2 (map2 (\<lambda>r v. map_option (\<lambda>w. - w * v) r)) reward
           (map (map (clamp lo hi))
              (map2 (map2 (\<lambda>n i. exp (n - i))) (map (map sum_list) lp_new)
                                                 (map (map sum_list) lp_init))))
   = map2 (map2 (\<lambda>r v. map_option (\<lambda>w. max (- w * v) (- w * clamp lo hi v)) r)) reward
          (map2 (map2 (\<lambda>n i. exp (sum_list n - sum_list i))) lp_new lp_init)"
  by (auto simp: list_eq_iff_nth_eq lift2_def split: option.splits)

lemma fsum_Some: "fsum (map Some vs) = Some (sum_list vs)"
  by (induction vs) (simp_all add: lift2_def)

lemma fmean_Some: "fmean (map Some vs) = Some (tensor_mean vs)"
  by (simp add: fmean_def fsum_Some tensor_mean_def)

lemma lifted_finite:
  "concat (map2 (map2 (\<lambda>r v. map_option (\<lambda>w. F w v) r)) (map (map Some) R) V)
   = map Some (concat (map2 (map2 F) R V))"
proof -
  have "map2 (map2 (\<lambda>r v. map_option (\<lambda>w. F w v) r)) (map (map Some) R) V
        = map (map Some) (map2 (map2 F) R V)"
    by (auto simp: list_eq_iff_nth_eq)
  then show ?thesis by (simp add: map_concat)
qed

lemma clamp_bounds: "lo \<le> hi \<Longrightarrow> lo \<le> clamp lo hi v \<and> clamp lo hi v \<le> hi"
  by (simp add: clamp_def)

lemma ex_ppo:
  "ppo_loss (example_ops float32 [[[1]], [[2]]] [[[0]], [[0]]]) (1 / 1000000)
        (example_model ''bernoulli-RF'' (1, 0)) [[[0]], [[0]]] [[0], [0]] [[True], [True]]
        [[1], [1]] [[True], [True]] [[[1]], [[1]]] (BernoulliREINFORCE (Probs [[[1 / 2]], [[1 / 2]]]))
        (BernoulliREINFORCE (Logits [[[0]], [[0]]])) [[- 1], [- 1]] (1 / 5) 1 (Some [[1], [1]])
   = Inr \<lparr>ppo_loss_out = [Some 0, Some 1], ppo_reward = [[Some 1], [Some 1]],
          ppo_reward_sc = None\<rparr>"
  by (simp add: ppo_loss_def example_ops_def example_model_def inf_forward_def masked_KL_def
        clamp_def fmean_def lift2_def kl_divergence_def)

text \<open>
  Claim C5, as the code has it. Whenever \<open>ppo_loss\<close> returns, the posterior was rebuilt from
  the current scores, and the value under \<^verbatim>\<open>"loss"\<close> has one entry for each batch element:
  the mean, over all positions of the batch, of
  \<open>max (- reward * ratio) (- reward * clipped ratio)\<close>, plus the multiplier times the masked
  KL of that element between the new posterior and the prior. The ratio of a position is
  \<open>exp\<close> of the difference of the summed log-probabilities of the sample under the new and
  the old posterior, and for \<open>eps \<ge> 0\<close> the clipped ratio lies in \<open>[1 - eps, 1 + eps]\<close>. A
  reward handed in by the caller is used as it is, and the entries are then numbers; a
  reward computed from the baselines can be NaN, and a NaN among the rewards makes the
  mean, and with it every entry, NaN.
\<close>

theorem ppo_loss_value:
  assumes "ppo_loss ops epsilon self logits x seq_mask_x y seq_mask_y A pa qa_init log_py_xa eps
             KL_multiplier reward = Inr out"
  shows "\<exists>lp_init qa_new lp_new K.
           log_prob ops qa_init A = Inr lp_init
         \<and> inf_forward (dist_name self) logits = Inr qa_new
         \<and> log_prob ops qa_new A = Inr lp_new
         \<and> kl_divergence ops qa_new pa = Inr K
         \<and> ppo_loss_out out =
             map (\<lambda>k. map_option (\<lambda>s. s + k * KL_multiplier)
                        (fmean (concat
                           (map2 (map2 (\<lambda>r v. map_option
                                    (\<lambda>w. max (- w * v) (- w * clamp (1 - eps) (1 + eps) v)) r))
                              (ppo_reward out)
                              (map2 (map2 (\<lambda>n i. exp (sum_list n - sum_list i)))
                                    lp_new lp_init)))))
                 (masked_KL seq_mask_x seq_mask_y K)
         \<and> (\<forall>r. reward = Some r \<longrightarrow>
                ppo_reward out = map (map Some) r
              \<and> ppo_loss_out out =
                  map (\<lambda>k. Some (tensor_mean (concat
                             (map2 (map2 (\<lambda>w v. max (- w * v)
                                                    (- w * clamp (1 - eps) (1 + eps) v)))
                                r
                                (map2 (map2 (\<lambda>n i. exp (sum_list n - sum_list i)))
                                      lp_new lp_init)))
                           + k * KL_multiplier))
                      (masked_KL seq_mask_x seq_mask_y K))
         \<and> (0 \<le> eps \<longrightarrow> (\<forall>v. 1 - eps \<le> clamp (1 - eps) (1 + eps) v
                                \<and> clamp (1 - eps) (1 + eps) v \<le> 1 + eps))"
proof -
  obtain lp_init where a: "log_prob ops qa_init A = Inr lp_init"
    using assms by (auto simp: ppo_loss_def split: sum.splits)
  obtain qa_new where b: "inf_forward (dist_name self) logits = Inr qa_new"
    using assms a by (auto simp: ppo_loss_def split: sum.splits)
  obtain lp_new where c: "log_prob ops qa_new A = Inr lp_new"
    using assms a b by (auto simp: ppo_loss_def split: sum.splits)
  obtain K where d: "kl_divergence ops qa_new pa = Inr K"
    using assms a b c by (auto simp: ppo_loss_def Let_def split: sum.splits prod.splits)
  note U = assms[unfolded ppo_loss_def Let_def a b c d sum.case surrogate_fused]
  have r: "ppo_reward out = map (map Some) r" if "reward = Some r" for r
    using U that by (auto split: sum.splits prod.splits)
  have l: "ppo_loss_out out =
             map (\<lambda>k. map_option (\<lambda>s. s + k * KL_multiplier)
                        (fmean (concat
                           (map2 (map2 (\<lambda>r v. map_option
                                    (\<lambda>w. max (- w * v) (- w * clamp (1 - eps) (1 + eps) v)) r))
                              (ppo_reward out)
                              (map2 (map2 (\<lambda>n i. exp (sum_list n - sum_list i)))
                                    lp_new lp_init)))))
                 (masked_KL seq_mask_x seq_mask_y K)"
    using U by (auto split: sum.splits prod.splits)
  have f: "ppo_loss_out out =
                  map (\<lambda>k. Some (tensor_mean (concat
                             (map2 (map2 (\<lambda>w v. max (- w * v)
                                                    (- w * clamp (1 - eps) (1 + eps) v)))
                                r
                                (map2 (map2 (\<lambda>n i. exp (sum_list n - sum_list i)))
                                      lp_new lp_init)))
                           + k * KL_multiplier))
                      (masked_KL seq_mask_x seq_mask_y K)"
    if "reward = Some r" for r
    unfolding l r[OF that] lifted_finite fmean_Some by simp
  have e: "\<forall>v. 1 - eps \<le> clamp (1 - eps) (1 + eps) v \<and> clamp (1 - eps) (1 + eps) v \<le> 1 + eps"
    if "0 \<le> eps"
    using that clamp_bounds[of "1 - eps" "1 + eps"] by simp
  show ?thesis using a b c d r l f e by blast
qed

theorem ppo_loss_value_witness:
  "ppo_loss (example_ops float32 [[[1]], [[2]]] [[[0]], [[0]]]) (1 / 1000000)
        (example_model ''bernoulli-RF'' (1, 0)) [[[0]], [[0]]] [[0], [0]] [[True], [True]]
        [[1], [1]] [[True], [True]] [[[1]], [[1]]] (BernoulliREINFORCE (Probs [[[1 / 2]], [[1 / 2]]]))
        (BernoulliREINFORCE (Logits [[[0]], [[0]]])) [[- 1], [- 1]] (1 / 5) 1 (Some [[1], [1]])
   = Inr \<lparr>ppo_loss_out = [Some 0, Some 1], ppo_reward = [[Some 1], [Some 1]],
          ppo_reward_sc = None\<rparr>
   \<and> (\<exists>K. kl_divergence (example_ops float32 [[[1]], [[2]]] [[[0]], [[0]]])
              (BernoulliREINFORCE (Logits [[[0]], [[0]]]))
              (BernoulliREINFORCE (Probs [[[1 / 2]], [[1 / 2]]])) = Inr K
          \<and> length [Some 0, Some (1 :: real)]
              = length (masked_KL [[True], [True]] [[True], [True]] K))"
proof -
  obtain K where
    K: "kl_divergence (example_ops float32 [[[1]], [[2]]] [[[0]], [[0]]])
           (BernoulliREINFORCE (Logits [[[0]], [[0]]]))
           (BernoulliREINFORCE (Probs [[[1 / 2]], [[1 / 2]]])) = Inr K"
    using ppo_loss_value [OF ex_ppo] by (auto simp: inf_forward_def example_model_def)
  then have "K = [[[1]], [[2]]]" by (simp add: example_ops_def kl_divergence_def)
  then have "length [Some 0, Some (1 :: real)]
               = length (masked_KL [[True], [True]] [[True], [True]] K)"
    by (simp add: masked_KL_def)
  then show ?thesis using ex_ppo K by blast
qed

text \<open>
  For a batch of two sentences with different KL the value under \<^verbatim>\<open>"loss"\<close> has two
  different entries: it is not one scalar.
\<close>

theorem ppo_loss_not_scalar_counterexample:
  "ppo_loss (example_ops float32 [[[1]], [[2]]] [[[0]], [[0]]]) (1 / 1000000)
        (example_model ''bernoulli-RF'' (1, 0)) [[[0]], [[0]]] [[0], [0]] [[True], [True]]
        [[1], [1]] [[True], [True]] [[[1]], [[1]]] (BernoulliREINFORCE (Probs [[[1 / 2]], [[1 / 2]]]))
        (BernoulliREINFORCE (Logits [[[0]], [[0]]])) [[- 1], [- 1]] (1 / 5) 1 (Some [[1], [1]])
   = Inr \<lparr>ppo_loss_out = [Some 0, Some 1], ppo_reward = [[Some 1], [Some 1]],
          ppo_reward_sc = None\<rparr>"
  by (simp add: ppo_loss_def example_ops_def example_model_def inf_forward_def masked_KL_def
        clamp_def fmean_def lift2_def kl_divergence_def)

section \<open>The baselines\<close>

lemma init_rf_state:
  assumes "AlignmentVAE_init epsilon cdf ''bernoulli-RF'' params p pl es emb cat M mcv scv sccv
             = Inr self"
  shows "\<exists>st. rf self = Some st \<and> avg_reward st = 0 \<and> std_reward st = Some 1
              \<and> alpha st = 0.05"
  using assms by (auto simp: AlignmentVAE_init_def)

lemma update_baselines_alpha:
  assumes "update_baselines ops self new_reward seq_len_y = Inr self'" and "rf self = Some st"
  shows "\<exists>st'. rf self' = Some st' \<and> alpha st' = alpha st"
  using assms by (auto simp: update_baselines_def Let_def)



lemma update_baselines_Some:
  assumes "rf self = Some st"
  shows "update_baselines ops self new_reward seq_len_y =
         Inr (self\<lparr>rf := Some (st\<lparr>
            avg_reward := smooth ops (alpha st)
               (tensor_mean (map2 (\<lambda>row len. sum_list row / real len) new_reward seq_len_y))
               (avg_reward st),
            std_reward := lift2 (smooth ops (alpha st))
               (tensor_std (map2 (\<lambda>row len. sum_list row / real len) new_reward seq_len_y))
               (std_reward st)\<rparr>)\<rparr>)"
  using assms by (simp add: update_baselines_def Let_def)




lemma ex_loss_nan:
  "loss (example_ops float32 [[[0]]] [[[- 1]]]) (1 / 1000000)
        ((example_model ''bernoulli-RF'' (1, 0))\<lparr>rf := Some (example_rf 0 None True)\<rparr>)
        [[[0, 0]]] [[0]] [[1]] [[[1]]] [[True]] [[True]]
        (BernoulliREINFORCE (Probs [[[1 / 2]]])) (BernoulliREINFORCE (Logits [[[0]]])) 1 ''none''
   = Inr \<lparr>out_log_py_xa = [[- ln 2]], out_KL = [0],
          out_ELBO = [float32 (float32 (- float32 (ln 2)))],
          out_reward_sc = None, out_reward = Some [[- ln 2]],
          out_normalized_reward = Some [[None]], out_loss = PerElement [None]\<rparr>"
  by (simp add: loss_def example_ops_def example_model_def example_rf_def cross_entropy_def
        ce_position_def masked_KL_def reduce_def control_variates_def Let_def kl_divergence_def
        lift2_def float32_0 float32_1)

text \<open>
  Claim C10. On a REINFORCE model: a call of \<open>update_baselines\<close> with a batch of exactly
  one sentence returns and leaves \<open>std_reward\<close> NaN, the standard deviation of one value
  being NaN; a \<open>std_reward\<close> that is NaN stays NaN under every further call; with
  \<open>std_reward\<close> NaN and the normalization by the standard deviation switched on, every
  entry of the normalized reward of every result of \<open>loss\<close> is NaN (without the self-critic
  the normalized reward has one entry for each entry of the reconstruction term); and for
  a batch of at least two sentences, with a target length for each, a \<open>std_reward\<close> that is
  a number stays a number.
\<close>

theorem single_sentence_std_nan:
  assumes "rf self = Some st"
  shows "(length new_reward = 1 \<and> length seq_len_y = 1 \<longrightarrow>
            (\<exists>self1 st1. update_baselines ops self new_reward seq_len_y = Inr self1
                        \<and> rf self1 = Some st1 \<and> std_reward st1 = None))
       \<and> (std_reward st = None \<longrightarrow>
            (\<exists>self1 st1. update_baselines ops self new_reward seq_len_y = Inr self1
                        \<and> rf self1 = Some st1 \<and> std_reward st1 = None))
       \<and> (std_reward st = None \<and> use_std_cv st \<and> dist_name self = ''bernoulli-RF'' \<longrightarrow>
            (\<forall>out. loss ops epsilon self logits x y A seq_mask_x seq_mask_y pa qa KL_multiplier
                      reduction = Inr out
               \<longrightarrow> (\<exists>nr. out_normalized_reward out = Some nr
                         \<and> (\<forall>row \<in> set nr. \<forall>v \<in> set row. v = None)
                         \<and> (\<not> use_self_critic_cv st
                              \<longrightarrow> map length nr = map length (out_log_py_xa out)))))
       \<and> (2 \<le> length new_reward \<and> length seq_len_y = length new_reward
            \<and> std_reward st \<noteq> None \<longrightarrow>
            (\<exists>self1 st1 s. update_baselines ops self new_reward seq_len_y = Inr self1
                          \<and> rf self1 = Some st1 \<and> std_reward st1 = Some s))"
proof -
  note U = update_baselines_Some[OF assms, of ops new_reward seq_len_y]
  have 1: "\<exists>self1 st1. update_baselines ops self new_reward seq_len_y = Inr self1
                        \<and> rf self1 = Some st1 \<and> std_reward st1 = None"
    if "length new_reward = 1 \<and> length seq_len_y = 1"
  proof -
    have "length (map2 (\<lambda>row len. sum_list row / real len) new_reward seq_len_y) < 2"
      using that by simp
    then have "tensor_std (map2 (\<lambda>row len. sum_list row / real len) new_reward seq_len_y) = None"
      by (simp add: tensor_std_def)
    then show ?thesis unfolding U by (simp add: lift2_def)
  qed
  have 2: "\<exists>self1 st1. update_baselines ops self new_reward seq_len_y = Inr self1
                        \<and> rf self1 = Some st1 \<and> std_reward st1 = None"
    if "std_reward st = None"
    unfolding U using that by (simp add: lift2_def split: option.splits)
  have 3: "\<exists>nr. out_normalized_reward out = Some nr
                         \<and> (\<forall>row \<in> set nr. \<forall>v \<in> set row. v = None)
                         \<and> (\<not> use_self_critic_cv st
                              \<longrightarrow> map length nr = map length (out_log_py_xa out))"
    if h: "std_reward st = None \<and> use_std_cv st \<and> dist_name self = ''bernoulli-RF''"
      and l: "loss ops epsilon self logits x y A seq_mask_x seq_mask_y pa qa KL_multiplier
                      reduction = Inr out" for out
  proof -
    from loss_Inr[OF l] h assms obtain nll nr rsc where
      lp: "out_log_py_xa out = map (map uminus) nll"
      and cv: "control_variates ops epsilon self st x y qa (map (map uminus) nll) = Inr (nr, rsc)"
      and o: "out_normalized_reward out = Some nr"
      by auto
    have a: "\<forall>row \<in> set nr. \<forall>v \<in> set row. v = None"
      using cv h by (auto simp: control_variates_def Let_def split: sum.splits if_splits)
    have s: "map length nr = map length (out_log_py_xa out)" if "\<not> use_self_critic_cv st"
      using cv h that lp
      by (auto simp: control_variates_def Let_def comp_def split: sum.splits if_splits)
    show ?thesis using o a s by blast
  qed
  have 4: "\<exists>self1 st1 s. update_baselines ops self new_reward seq_len_y = Inr self1
                          \<and> rf self1 = Some st1 \<and> std_reward st1 = Some s"
    if h4: "2 \<le> length new_reward \<and> length seq_len_y = length new_reward
            \<and> std_reward st \<noteq> None"
  proof -
    have "\<not> length (map2 (\<lambda>row len. sum_list row / real len) new_reward seq_len_y) < 2"
      using h4 by simp
    then obtain sd where
      "tensor_std (map2 (\<lambda>row len. sum_list row / real len) new_reward seq_len_y) = Some sd"
      by (auto simp: tensor_std_def)
    moreover obtain s where "std_reward st = Some s" using h4 by auto
    ultimately show ?thesis unfolding U by (simp add: lift2_def)
  qed
  show ?thesis using 1 2 3 4 by blast
qed

theorem single_sentence_std_nan_witness:
  "rf (example_model ''bernoulli-RF'' (1, 0)) = Some (example_rf 0 (Some 1) False)
   \<and> length [[- 1, - 3 :: real]] = 1 \<and> length [2 :: nat] = 1
   \<and> (\<exists>self1 st1. update_baselines (example_ops float32 [] [])
                      (example_model ''bernoulli-RF'' (1, 0)) [[- 1, - 3]] [2] = Inr self1
                  \<and> rf self1 = Some st1 \<and> std_reward st1 = None)
   \<and> loss (example_ops float32 [[[0]]] [[[- 1]]]) (1 / 1000000)
        ((example_model ''bernoulli-RF'' (1, 0))\<lparr>rf := Some (example_rf 0 None True)\<rparr>)
        [[[0, 0]]] [[0]] [[1]] [[[1]]] [[True]] [[True]]
        (BernoulliREINFORCE (Probs [[[1 / 2]]])) (BernoulliREINFORCE (Logits [[[0]]])) 1 ''none''
      = Inr \<lparr>out_log_py_xa = [[- ln 2]], out_KL = [0],
             out_ELBO = [float32 (float32 (- float32 (ln 2)))],
             out_reward_sc = None, out_reward = Some [[- ln 2]],
             out_normalized_reward = Some [[None]], out_loss = PerElement [None]\<rparr>"
proof -
  have r: "rf (example_model ''bernoulli-RF'' (1, 0)) = Some (example_rf 0 (Some 1) False)"
    by (simp add: example_model_def)
  have "length [[- 1, - 3 :: real]] = 1 \<and> length [2 :: nat] = 1" by simp
  then have "\<exists>self1 st1. update_baselines (example_ops float32 [] [])
                      (example_model ''bernoulli-RF'' (1, 0)) [[- 1, - 3]] [2] = Inr self1
                  \<and> rf self1 = Some st1 \<and> std_reward st1 = None"
    using single_sentence_std_nan [OF r, of "[[- 1, - 3]]" "[2]" "example_ops float32 [] []"]
    by blast
  then show ?thesis using r ex_loss_nan by simp
qed

end
